theory Spec2Isabelle
  imports Complex_Main "HOL-Library.Word"
begin

section \<open>JavaScript strings\<close>

text \<open>
  A JavaScript string is a sequence of UTF-16 code units. The regular expressions of
  \<^verbatim>\<open>HexagramVisual.tsx\<close> carry no \<^verbatim>\<open>u\<close> flag, so they match code unit by
  code unit; every character they name lies in the Basic Multilingual Plane and is one
  code unit. \<open>ascii\<close> writes an ASCII literal of the source as code units.
\<close>

type_synonym code_unit = "16 word"
type_synonym jsstring = "code_unit list"

definition ascii :: "string \<Rightarrow> jsstring" where
  "ascii s = map of_char s"

section \<open>Hexagram decoder (\<^verbatim>\<open>frontend/components/HexagramVisual.tsx\<close>)\<close>

subsection \<open>The eight trigram symbols, U+2630 to U+2637\<close>

definition HEAVEN :: code_unit where "HEAVEN = 0x2630"
definition LAKE :: code_unit where "LAKE = 0x2631"
definition FIRE :: code_unit where "FIRE = 0x2632"
definition THUNDER :: code_unit where "THUNDER = 0x2633"
definition WIND :: code_unit where "WIND = 0x2634"
definition WATER :: code_unit where "WATER = 0x2635"
definition MOUNTAIN :: code_unit where "MOUNTAIN = 0x2636"
definition EARTH :: code_unit where "EARTH = 0x2637"

text \<open>
  \<^verbatim>\<open>TRIGRAM_LINES\<close>, in the order of the source. A key is a one-character string;
  its value is a three-element array read bottom to top; \<open>True\<close> is a solid line.
\<close>

definition TRIGRAM_LINES :: "(jsstring \<times> bool list) list" where
  "TRIGRAM_LINES =
    [([HEAVEN], [True, True, True]),
     ([EARTH], [False, False, False]),
     ([WATER], [False, True, False]),
     ([FIRE], [True, False, True]),
     ([THUNDER], [False, False, True]),
     ([WIND], [True, True, False]),
     ([MOUNTAIN], [False, False, True]),
     ([LAKE], [False, True, True])]"

text \<open>
  \<^verbatim>\<open>TRIGRAM_NAMES\<close>, in the order of the source. The Vietnamese names are written in
  the source with precomposed letters; the code units are those of the file.
\<close>

definition TRIGRAM_NAMES :: "(jsstring \<times> jsstring) list" where
  "TRIGRAM_NAMES =
    [(ascii ''c'' @ [0xE0] @ ascii ''n'', [HEAVEN]),
     (ascii ''tr'' @ [0x1EDD] @ ascii ''i'', [HEAVEN]),
     (ascii ''heaven'', [HEAVEN]),
     (ascii ''kh'' @ [0xF4] @ ascii ''n'', [EARTH]),
     ([0x111, 0x1EA5] @ ascii ''t'', [EARTH]),
     (ascii ''earth'', [EARTH]),
     (ascii ''kh'' @ [0x1EA3] @ ascii ''m'', [WATER]),
     (ascii ''n'' @ [0x1B0, 0x1EDB] @ ascii ''c'', [WATER]),
     (ascii ''water'', [WATER]),
     (ascii ''ly'', [FIRE]),
     (ascii ''l'' @ [0x1EED] @ ascii ''a'', [FIRE]),
     (ascii ''fire'', [FIRE]),
     (ascii ''ch'' @ [0x1EA5] @ ascii ''n'', [THUNDER]),
     (ascii ''s'' @ [0x1EA5] @ ascii ''m'', [THUNDER]),
     (ascii ''thunder'', [THUNDER]),
     (ascii ''t'' @ [0x1ED1] @ ascii ''n'', [WIND]),
     (ascii ''gi'' @ [0xF3], [WIND]),
     (ascii ''wind'', [WIND]),
     (ascii ''c'' @ [0x1EA5] @ ascii ''n'', [MOUNTAIN]),
     (ascii ''n'' @ [0xFA] @ ascii ''i'', [MOUNTAIN]),
     (ascii ''mountain'', [MOUNTAIN]),
     ([0x111] @ ascii ''o'' @ [0xE0] @ ascii ''i'', [LAKE]),
     ([0x111, 0x1EA7] @ ascii ''m'', [LAKE]),
     (ascii ''lake'', [LAKE])]"

subsection \<open>Property lookup on an object literal\<close>

text \<open>
  Both tables are plain object literals, so \<^verbatim>\<open>TABLE[key]\<close> finds an own property
  first and then a property of \<^verbatim>\<open>Object.prototype\<close>; only when both miss is the
  result \<^verbatim>\<open>undefined\<close>. The inherited properties are functions, and for
  \<^verbatim>\<open>__proto__\<close> the prototype object itself: all of them truthy, none a string.
\<close>

definition OBJECT_PROTOTYPE_KEYS :: "jsstring list" where
  "OBJECT_PROTOTYPE_KEYS = map ascii
    [''constructor'', ''__defineGetter__'', ''__defineSetter__'', ''hasOwnProperty'',
     ''__lookupGetter__'', ''__lookupSetter__'', ''isPrototypeOf'',
     ''propertyIsEnumerable'', ''toString'', ''valueOf'', ''__proto__'',
     ''toLocaleString'']"

text \<open>
  What a slot of the parse result can hold at run time: \<^verbatim>\<open>null\<close>, a string, or
  the property of \<^verbatim>\<open>Object.prototype\<close> with the given name.
\<close>

datatype slot = Null | Str jsstring | Inherited jsstring

record trigrams =
  upper :: slot
  lower :: slot

text \<open>\<^verbatim>\<open>TRIGRAM_NAMES[name] || null\<close>; the own values are non-empty strings.\<close>

definition names_lookup :: "jsstring \<Rightarrow> slot" where
  "names_lookup name =
    (case map_of TRIGRAM_NAMES name of
       Some v \<Rightarrow> (if v = [] then Null else Str v)
     | None \<Rightarrow> (if name \<in> set OBJECT_PROTOTYPE_KEYS then Inherited name else Null))"

subsection \<open>The regular expressions\<close>

text \<open>The character class \<^verbatim>\<open>[\<dots>]\<close> of the eight symbols.\<close>

definition is_trigram_symbol :: "code_unit \<Rightarrow> bool" where
  "is_trigram_symbol c \<longleftrightarrow>
     c \<in> set [HEAVEN, LAKE, FIRE, THUNDER, WIND, WATER, MOUNTAIN, EARTH]"

text \<open>
  \<^verbatim>\<open>structure.match(/[\<dots>]/g)\<close>: every match in order of appearance, each a
  one-character string, or \<^verbatim>\<open>null\<close> when there is none.
\<close>

definition match_symbols :: "jsstring \<Rightarrow> jsstring list option" where
  "match_symbols structure =
    (let ms = map (\<lambda>c. [c]) (filter is_trigram_symbol structure)
     in if ms = [] then None else Some ms)"

text \<open>\<^verbatim>\<open>\s\<close>: the white space and line terminators of ECMAScript.\<close>

definition is_space :: "code_unit \<Rightarrow> bool" where
  "is_space c \<longleftrightarrow>
     (0x09 \<le> c \<and> c \<le> 0x0D) \<or> c = 0x20 \<or> c = 0xA0 \<or> c = 0x1680 \<or>
     (0x2000 \<le> c \<and> c \<le> 0x200A) \<or> c = 0x2028 \<or> c = 0x2029 \<or> c = 0x202F \<or>
     c = 0x205F \<or> c = 0x3000 \<or> c = 0xFEFF"

text \<open>\<^verbatim>\<open>\w\<close> without the \<^verbatim>\<open>u\<close> flag: \<^verbatim>\<open>[A-Za-z0-9_]\<close>.\<close>

definition is_word :: "code_unit \<Rightarrow> bool" where
  "is_word c \<longleftrightarrow>
     (0x41 \<le> c \<and> c \<le> 0x5A) \<or> (0x61 \<le> c \<and> c \<le> 0x7A) \<or>
     (0x30 \<le> c \<and> c \<le> 0x39) \<or> c = 0x5F"

text \<open>
  Under the \<^verbatim>\<open>i\<close> flag a pattern character matches an input code unit when both
  have the same upper-case form. For the letters of the two marker words that is the
  letter itself and its capital: \<^verbatim>\<open>t h n g\<close> and their ASCII capitals, U+01B0 and
  U+01AF, U+1EE3 and U+1EE2, U+1EA1 and U+1EA0. No other code unit upper-cases to one
  of these capitals (a non-ASCII code unit is never folded onto an ASCII one).
\<close>

definition upper_form :: "code_unit \<Rightarrow> code_unit" where
  "upper_form c =
    (if 0x61 \<le> c \<and> c \<le> 0x7A then c - 0x20
     else if c = 0x1B0 then 0x1AF
     else if c = 0x1EE3 then 0x1EE2
     else if c = 0x1EA1 then 0x1EA0
     else c)"

definition ci_char :: "code_unit \<Rightarrow> code_unit \<Rightarrow> bool" where
  "ci_char p c \<longleftrightarrow> upper_form c = upper_form p"

definition UPPER_MARKER :: jsstring where
  "UPPER_MARKER = ascii ''th'' @ [0x1B0, 0x1EE3] @ ascii ''ng''"

definition LOWER_MARKER :: jsstring where
  "LOWER_MARKER = ascii ''h'' @ [0x1EA1]"

text \<open>
  \<^verbatim>\<open>/marker\s+(\w+)/i\<close> tried at the start of \<open>s\<close>; the result is capture group 1.
  \<^verbatim>\<open>\s\<close> and \<^verbatim>\<open>\w\<close> are disjoint, so backtracking finds nothing the greedy
  run misses: the marker, then the longest run of white space (at least one), then the
  longest run of word characters (at least one).
\<close>

definition match_here :: "jsstring \<Rightarrow> jsstring \<Rightarrow> jsstring option" where
  "match_here marker s =
    (if length marker \<le> length s \<and> list_all2 ci_char marker (take (length marker) s)
     then (let rest = drop (length marker) s;
               name = takeWhile is_word (dropWhile is_space rest)
           in if takeWhile is_space rest \<noteq> [] \<and> name \<noteq> [] then Some name else None)
     else None)"

text \<open>\<^verbatim>\<open>structure.match(/marker\s+(\w+)/i)\<close>: the leftmost start that matches.\<close>

fun regex_match :: "jsstring \<Rightarrow> jsstring \<Rightarrow> jsstring option" where
  "regex_match marker [] = match_here marker []"
| "regex_match marker (c # cs) =
    (case match_here marker (c # cs) of
       Some name \<Rightarrow> Some name
     | None \<Rightarrow> regex_match marker cs)"

text \<open>\<^verbatim>\<open>toLowerCase()\<close> on a captured name, which holds ASCII word characters only.\<close>

definition toLowerCase :: "jsstring \<Rightarrow> jsstring" where
  "toLowerCase s = map (\<lambda>c. if 0x41 \<le> c \<and> c \<le> 0x5A then c + 0x20 else c) s"

subsection \<open>\<^verbatim>\<open>parseTrigramSymbols\<close>\<close>

text \<open>\<^verbatim>\<open>name ? (TRIGRAM_NAMES[name] || null) : null\<close> for an optional name.\<close>

definition resolve_name :: "jsstring option \<Rightarrow> slot" where
  "resolve_name name =
    (case name of
       None \<Rightarrow> Null
     | Some n \<Rightarrow> (if n = [] then Null else names_lookup n))"

definition parseTrigramSymbols :: "jsstring \<Rightarrow> trigrams" where
  "parseTrigramSymbols structure =
    (case match_symbols structure of
       Some (s0 # s1 # others) \<Rightarrow> \<lparr>upper = Str s0, lower = Str s1\<rparr>
     | _ \<Rightarrow>
       (let upperMatch = regex_match UPPER_MARKER structure;
            lowerMatch = regex_match LOWER_MARKER structure;
            upperName = map_option toLowerCase upperMatch;
            lowerName = map_option toLowerCase lowerMatch
        in \<lparr>upper = resolve_name upperName, lower = resolve_name lowerName\<rparr>))"

subsection \<open>The line sequence of \<^verbatim>\<open>HexagramVisual\<close>\<close>

datatype js_error = TypeError | SyntaxError

text \<open>Truthiness of a slot, as \<^verbatim>\<open>upper ? \<dots> : \<dots>\<close> tests it.\<close>

fun slot_truthy :: "slot \<Rightarrow> bool" where
  "slot_truthy Null = False"
| "slot_truthy (Str s) = (s \<noteq> [])"
| "slot_truthy (Inherited k) = True"

text \<open>
  \<^verbatim>\<open>slot ? TRIGRAM_LINES[slot] : [true, true, true]\<close>. Only the eight symbols are
  own keys with an array as value. Any other key, and an inherited value used as a key,
  gives \<^verbatim>\<open>undefined\<close> or a function, on which the \<^verbatim>\<open>.slice()\<close> that follows
  throws a \<^verbatim>\<open>TypeError\<close>.
\<close>

definition trigram_lines :: "slot \<Rightarrow> js_error + bool list" where
  "trigram_lines s =
    (if slot_truthy s
     then (case s of
             Str key \<Rightarrow> (case map_of TRIGRAM_LINES key of
                          Some ls \<Rightarrow> Inr ls
                        | None \<Rightarrow> Inl TypeError)
           | _ \<Rightarrow> Inl TypeError)
     else Inr [True, True, True])"

text \<open>
  \<^verbatim>\<open>allLines = [...upperLines.slice().reverse(), ...lowerLines.slice().reverse()]\<close>
\<close>

definition allLines :: "slot \<Rightarrow> slot \<Rightarrow> js_error + bool list" where
  "allLines up lo =
    (case trigram_lines up of
       Inl e \<Rightarrow> Inl e
     | Inr upperLines \<Rightarrow>
       (case trigram_lines lo of
          Inl e \<Rightarrow> Inl e
        | Inr lowerLines \<Rightarrow> Inr (rev upperLines @ rev lowerLines)))"

text \<open>The lines \<^verbatim>\<open>HexagramVisual\<close> renders for a structure string.\<close>

definition HexagramVisual :: "jsstring \<Rightarrow> js_error + bool list" where
  "HexagramVisual structure =
    (let t = parseTrigramSymbols structure in allLines (upper t) (lower t))"


section \<open>Parsed JSON and run-time values\<close>

text \<open>
  The value \<^verbatim>\<open>response.json()\<close> resolves to. A number is kept as the real value of
  the double; only its truthiness is inspected. \<open>None\<close> of type \<open>JSON option\<close> stands
  for \<^verbatim>\<open>undefined\<close>.
\<close>

datatype JSON =
  JNull
| JBool bool
| JNum real
| JStr jsstring
| JArr "JSON list"
| JObj "(jsstring \<times> JSON) list"

fun truthy :: "JSON \<Rightarrow> bool" where
  "truthy JNull = False"
| "truthy (JBool b) = b"
| "truthy (JNum r) = (r \<noteq> 0)"
| "truthy (JStr s) = (s \<noteq> [])"
| "truthy (JArr xs) = True"
| "truthy (JObj kvs) = True"

text \<open>\<^verbatim>\<open>a || b\<close> on possibly undefined values.\<close>

definition js_or :: "JSON option \<Rightarrow> JSON option \<Rightarrow> JSON option" where
  "js_or a b = (case a of Some v \<Rightarrow> (if truthy v then a else b) | None \<Rightarrow> b)"

text \<open>
  \<^verbatim>\<open>json.detail\<close> and \<^verbatim>\<open>json.message\<close>: reading a property of \<^verbatim>\<open>null\<close> throws
  a \<^verbatim>\<open>TypeError\<close>; an object gives its own property; neither name is a property
  of a prototype, so every other value gives \<^verbatim>\<open>undefined\<close>.
\<close>

fun get_field :: "JSON \<Rightarrow> jsstring \<Rightarrow> js_error + JSON option" where
  "get_field JNull k = Inl TypeError"
| "get_field (JObj kvs) k = Inr (map_of kvs k)"
| "get_field v k = Inr None"

text \<open>
  \<^verbatim>\<open>String(v)\<close>, as the \<^verbatim>\<open>Error\<close> constructor applies it to its message, can throw
  on a parsed value. A parsed object that has a key \<^verbatim>\<open>toString\<close> of its own hides the
  inherited method behind a value that cannot be called, and the inherited
  \<^verbatim>\<open>valueOf\<close> returns the object itself, so the conversion ends in a \<^verbatim>\<open>TypeError\<close>.
  An array is joined from the conversions of its elements other than \<^verbatim>\<open>null\<close>, so it
  throws when one of them does. Every other value converts.
\<close>

fun String_throws :: "JSON \<Rightarrow> bool" where
  "String_throws (JObj kvs) = (map_of kvs (ascii ''toString'') \<noteq> None)"
| "String_throws (JArr xs) = (\<exists>x \<in> set xs. String_throws x)"
| "String_throws v = False"

text \<open>
  The text \<^verbatim>\<open>String(v)\<close> gives when it does not throw. A string is kept; the
  rendering of any other value by the platform is taken as the parameter \<open>coerce\<close>.
\<close>

definition js_String :: "(JSON \<Rightarrow> jsstring) \<Rightarrow> JSON \<Rightarrow> jsstring" where
  "js_String coerce v = (case v of JStr s \<Rightarrow> s | _ \<Rightarrow> coerce v)"

text \<open>A non-negative integer in a template literal: its decimal digits.\<close>

fun digits :: "nat \<Rightarrow> jsstring" where
  "digits n =
    (if n < 10 then [of_nat (48 + n)]
     else digits (n div 10) @ [of_nat (48 + n mod 10)])"

declare digits.simps [simp del]

section \<open>API client (\<^verbatim>\<open>lib/api.ts\<close>, \<^verbatim>\<open>unnamed/part_003\<close>)\<close>

subsection \<open>Requests, responses, sessions\<close>

text \<open>\<^verbatim>\<open>RequestInit\<close>; the field \<open>request_method\<close> is \<^verbatim>\<open>method\<close> of the source.\<close>

record RequestInit =
  request_method :: "jsstring option"
  body :: "jsstring option"
  headers :: "(jsstring \<rightharpoonup> jsstring) option"

text \<open>
  What the client reads of a \<^verbatim>\<open>Response\<close>: \<open>json\<close> is the outcome of
  \<^verbatim>\<open>response.json()\<close>, \<open>Inl\<close> when the body does not parse.
\<close>

record Response =
  status :: nat
  statusText :: jsstring
  json :: "js_error + JSON"

definition ok :: "Response \<Rightarrow> bool" where
  "ok response \<longleftrightarrow> 200 \<le> status response \<and> status response \<le> 299"

record Session =
  access_token :: jsstring
  expires_at :: "int option"

text \<open>
  The result of \<^verbatim>\<open>supabase.auth.getSession()\<close> and \<^verbatim>\<open>refreshSession()\<close>:
  \<^verbatim>\<open>{ data: { session }, error }\<close>.
\<close>

record AuthResponse =
  session :: "Session option"
  auth_error :: "jsstring option"

text \<open>\<^verbatim>\<open>interface ApiError\<close> of \<^verbatim>\<open>types/index.ts\<close>, with the values it holds at run time.\<close>

record ApiError =
  error :: JSON
  detail :: "JSON option"
  status_code :: nat

record ApiException =
  name :: jsstring
  message :: jsstring
  statusCode :: nat
  exception_detail :: "JSON option"

text \<open>
  What a call can throw: the structured error, the reason a promise of the platform
  (\<^verbatim>\<open>fetch\<close>, \<^verbatim>\<open>getSession\<close>, \<^verbatim>\<open>refreshSession\<close>) rejected with, or a native
  error.
\<close>

datatype thrown =
  Thrown ApiException
| Rejected jsstring
| Native js_error

datatype console_line =
  Error_getting_access_token
| API_Key_error
| Auth_error
| Rate_limit_exceeded
| Error_getting_session
| No_active_session_found
| Token_expiring_soon
| Failed_to_refresh_session
| Token_refreshed_successfully
| Error_getting_token

text \<open>The effects a call leaves behind, in order.\<close>

datatype effect =
  Console console_line
| Fetch jsstring "RequestInit option"
| RefreshSession

text \<open>
  The surroundings of the client: the two configuration constants, read once from the
  environment, and the outcomes of the platform calls (\<open>Inl\<close> is a rejected promise).
\<close>

record environment =
  API_BASE_URL :: jsstring
  API_SECRET_KEY :: jsstring
  coerce :: "JSON \<Rightarrow> jsstring"
  fetch :: "jsstring \<Rightarrow> RequestInit option \<Rightarrow> jsstring + Response"
  getSession :: "jsstring + AuthResponse"
  refreshSession :: "jsstring + AuthResponse"
  Date_now :: int

subsection \<open>\<^verbatim>\<open>class ApiException\<close>\<close>

text \<open>
  The object the constructor builds when it returns:
  \<^verbatim>\<open>super(error.error || error.detail || "Unknown error")\<close>, then the three fields.
\<close>

definition new_ApiException :: "(JSON \<Rightarrow> jsstring) \<Rightarrow> ApiError \<Rightarrow> ApiException" where
  "new_ApiException co e =
    \<lparr>name = ascii ''ApiException'',
     message =
       (case js_or (js_or (Some (error e)) (detail e)) (Some (JStr (ascii ''Unknown error''))) of
          Some v \<Rightarrow> js_String co v
        | None \<Rightarrow> []),
     statusCode = status_code e,
     exception_detail = detail e\<rparr>"

text \<open>
  The constructor throws a \<^verbatim>\<open>TypeError\<close> instead of returning when the conversion of
  its message to a string throws.
\<close>

definition constructor_throws :: "ApiError \<Rightarrow> bool" where
  "constructor_throws e =
    (case js_or (js_or (Some (error e)) (detail e)) (Some (JStr (ascii ''Unknown error''))) of
       Some v \<Rightarrow> String_throws v
     | None \<Rightarrow> False)"

definition isApiKeyError :: "ApiException \<Rightarrow> bool" where
  "isApiKeyError e \<longleftrightarrow> statusCode e = 403"

definition isAuthError :: "ApiException \<Rightarrow> bool" where
  "isAuthError e \<longleftrightarrow> statusCode e = 401"

definition isRateLimitError :: "ApiException \<Rightarrow> bool" where
  "isRateLimitError e \<longleftrightarrow> statusCode e = 429"

subsection \<open>Headers\<close>

definition buildBaseHeaders :: "jsstring \<Rightarrow> (jsstring \<rightharpoonup> jsstring)" where
  "buildBaseHeaders key =
    (let hs = [ascii ''Content-Type'' \<mapsto> ascii ''application/json'']
     in if key \<noteq> [] then hs(ascii ''X-API-Key'' \<mapsto> key) else hs)"

text \<open>\<^verbatim>\<open>...options.headers\<close>: spreading \<^verbatim>\<open>undefined\<close> adds nothing.\<close>

definition spread :: "(jsstring \<rightharpoonup> jsstring) option \<Rightarrow> (jsstring \<rightharpoonup> jsstring)" where
  "spread hs = (case hs of None \<Rightarrow> Map.empty | Some h \<Rightarrow> h)"

text \<open>
  \<^verbatim>\<open>...(token && { Authorization: `Bearer ${token}` })\<close>: \<^verbatim>\<open>null\<close> and the empty
  string are falsy and spread to nothing.
\<close>

definition auth_header :: "jsstring option \<Rightarrow> (jsstring \<rightharpoonup> jsstring)" where
  "auth_header token =
    (case token of
       None \<Rightarrow> Map.empty
     | Some t \<Rightarrow> (if t \<noteq> [] then [ascii ''Authorization'' \<mapsto> ascii ''Bearer '' @ t]
                 else Map.empty))"

subsection \<open>The error body of a response that is not ok\<close>

text \<open>
  The \<^verbatim>\<open>try\<close> block that both wrappers contain (lines 111 to 117 and 158 to 164):
  parse the body, then read \<^verbatim>\<open>json.detail || json.message || "Request failed"\<close>.
\<close>

definition errorData_try :: "Response \<Rightarrow> js_error + ApiError" where
  "errorData_try response =
    (case json response of
       Inl e \<Rightarrow> Inl e
     | Inr j \<Rightarrow>
       (case get_field j (ascii ''detail'') of
          Inl e \<Rightarrow> Inl e
        | Inr d \<Rightarrow>
          (case get_field j (ascii ''message'') of
             Inl e \<Rightarrow> Inl e
           | Inr m \<Rightarrow>
             Inr \<lparr>error = (case js_or (js_or d m) (Some (JStr (ascii ''Request failed''))) of
                              Some v \<Rightarrow> v
                            | None \<Rightarrow> JNull),
                  detail = d,
                  status_code = status response\<rparr>)))"

text \<open>The \<^verbatim>\<open>catch\<close> block: \<^verbatim>\<open>`HTTP ${response.status}: ${response.statusText}`\<close>.\<close>

definition errorData :: "Response \<Rightarrow> ApiError" where
  "errorData response =
    (case errorData_try response of
       Inr d \<Rightarrow> d
     | Inl e \<Rightarrow>
       \<lparr>error = JStr (ascii ''HTTP '' @ digits (status response) @ ascii '': '' @
                       statusText response),
        detail = None,
        status_code = status response\<rparr>)"

subsection \<open>\<^verbatim>\<open>apiFetch\<close>\<close>

type_synonym 'a outcome = "effect list \<times> (thrown + 'a)"

definition apiFetch_config :: "environment \<Rightarrow> RequestInit \<Rightarrow> RequestInit" where
  "apiFetch_config env options =
    options\<lparr>headers :=
      Some (buildBaseHeaders (API_SECRET_KEY env) ++ spread (headers options))\<rparr>"

definition apiFetch :: "environment \<Rightarrow> jsstring \<Rightarrow> RequestInit \<Rightarrow> JSON outcome" where
  "apiFetch env endpoint options =
    (let url = API_BASE_URL env @ endpoint;
         config = apiFetch_config env options
     in case fetch env url (Some config) of
          Inl reason \<Rightarrow> ([Fetch url (Some config)], Inl (Rejected reason))
        | Inr response \<Rightarrow>
          (if \<not> ok response
           then ([Fetch url (Some config)],
                 (if constructor_throws (errorData response) then Inl (Native TypeError)
                  else Inl (Thrown (new_ApiException (coerce env) (errorData response)))))
           else ([Fetch url (Some config)],
                 (case json response of
                    Inl e \<Rightarrow> Inl (Native e)
                  | Inr j \<Rightarrow> Inr j))))"

subsection \<open>\<^verbatim>\<open>getAccessToken\<close> (\<^verbatim>\<open>frontend/lib/supabase.ts\<close>)\<close>

text \<open>The body of the \<^verbatim>\<open>try\<close>: \<^verbatim>\<open>data.session?.access_token ?? null\<close>.\<close>

definition getAccessToken_try :: "environment \<Rightarrow> thrown + jsstring option" where
  "getAccessToken_try env =
    (case getSession env of
       Inl reason \<Rightarrow> Inl (Rejected reason)
     | Inr r \<Rightarrow> Inr (map_option access_token (session r)))"

definition getAccessToken :: "environment \<Rightarrow> (jsstring option) outcome" where
  "getAccessToken env =
    (case getAccessToken_try env of
       Inl e \<Rightarrow> ([Console Error_getting_access_token], Inr None)
     | Inr token \<Rightarrow> ([], Inr token))"

subsection \<open>\<^verbatim>\<open>apiFetchWithAuth\<close>\<close>

definition apiFetchWithAuth_config ::
  "environment \<Rightarrow> jsstring option \<Rightarrow> RequestInit \<Rightarrow> RequestInit" where
  "apiFetchWithAuth_config env token options =
    options\<lparr>headers :=
      Some (buildBaseHeaders (API_SECRET_KEY env) ++ auth_header token ++
            spread (headers options))\<rparr>"

text \<open>The \<^verbatim>\<open>console.error\<close> chain of lines 175 to 181.\<close>

definition log_exception :: "ApiException \<Rightarrow> effect list" where
  "log_exception exception =
    (if isApiKeyError exception then [Console API_Key_error]
     else if isAuthError exception then [Console Auth_error]
     else if isRateLimitError exception then [Console Rate_limit_exceeded]
     else [])"

definition apiFetchWithAuth :: "environment \<Rightarrow> jsstring \<Rightarrow> RequestInit \<Rightarrow> JSON outcome" where
  "apiFetchWithAuth env endpoint options =
    (let url = API_BASE_URL env @ endpoint
     in case getAccessToken env of
          (es, Inl e) \<Rightarrow> (es, Inl e)
        | (es, Inr token) \<Rightarrow>
          (let config = apiFetchWithAuth_config env token options
           in case fetch env url (Some config) of
                Inl reason \<Rightarrow> (es @ [Fetch url (Some config)], Inl (Rejected reason))
              | Inr response \<Rightarrow>
                (if \<not> ok response
                 then (if constructor_throws (errorData response)
                       then (es @ [Fetch url (Some config)], Inl (Native TypeError))
                       else (let exception = new_ApiException (coerce env) (errorData response)
                             in (es @ [Fetch url (Some config)] @ log_exception exception,
                                 Inl (Thrown exception))))
                 else (es @ [Fetch url (Some config)],
                       (case json response of
                          Inl e \<Rightarrow> Inl (Native e)
                        | Inr j \<Rightarrow> Inr j)))))"

subsection \<open>\<^verbatim>\<open>dreamApi\<close>\<close>

text \<open>
  The seven exposed calls. A request body is the text \<^verbatim>\<open>JSON.stringify(request)\<close>
  gives, taken as the argument; \<open>limit\<close> is \<open>None\<close> when the argument is left out.
\<close>

definition POST :: "jsstring \<Rightarrow> RequestInit" where
  "POST text = \<lparr>request_method = Some (ascii ''POST''), body = Some text, headers = None\<rparr>"

definition GET :: RequestInit where
  "GET = \<lparr>request_method = Some (ascii ''GET''), body = None, headers = None\<rparr>"

definition interpretDream :: "environment \<Rightarrow> jsstring \<Rightarrow> JSON outcome" where
  "interpretDream env request = apiFetch env (ascii ''/api/dreams/interpret'') (POST request)"

definition analyzeDream :: "environment \<Rightarrow> jsstring \<Rightarrow> JSON outcome" where
  "analyzeDream env request =
    apiFetchWithAuth env (ascii ''/api/dreams/analyze'') (POST request)"

definition getDreamHistory :: "environment \<Rightarrow> real option \<Rightarrow> JSON outcome" where
  "getDreamHistory env limit =
    apiFetchWithAuth env
      (ascii ''/api/dreams/history?limit='' @
       coerce env (JNum (case limit of None \<Rightarrow> 10 | Some l \<Rightarrow> l)))
      GET"

definition searchSymbols :: "environment \<Rightarrow> jsstring \<Rightarrow> JSON outcome" where
  "searchSymbols env request = apiFetch env (ascii ''/api/dreams/search'') (POST request)"

definition getCommonSymbols :: "environment \<Rightarrow> JSON outcome" where
  "getCommonSymbols env = apiFetch env (ascii ''/api/dreams/symbols/common'') GET"

definition healthCheck :: "environment \<Rightarrow> JSON outcome" where
  "healthCheck env =
    (let url = API_BASE_URL env @ ascii ''/api/health''
     in case fetch env url None of
          Inl reason \<Rightarrow> ([Fetch url None], Inl (Rejected reason))
        | Inr response \<Rightarrow>
          ([Fetch url None],
           (case json response of
              Inl e \<Rightarrow> Inl (Native e)
            | Inr j \<Rightarrow> Inr j)))"

definition analyzeTriangle :: "environment \<Rightarrow> jsstring \<Rightarrow> JSON outcome" where
  "analyzeTriangle env request = apiFetch env (ascii ''/api/dreams/triangle'') (POST request)"

section \<open>\<^verbatim>\<open>AuthProvider.getToken\<close> (\<^verbatim>\<open>unnamed/part_001\<close>)\<close>

text \<open>
  \<^verbatim>\<open>expiresAt && expiresAt - now < 60\<close> with
  \<^verbatim>\<open>now = Math.floor(Date.now() / 1000)\<close>: an expiry that is \<^verbatim>\<open>undefined\<close> or
  \<open>0\<close> is falsy.
\<close>

definition expiring_soon :: "int option \<Rightarrow> int \<Rightarrow> bool" where
  "expiring_soon expiresAt now_ms =
    (case expiresAt of
       None \<Rightarrow> False
     | Some e \<Rightarrow> e \<noteq> 0 \<and> e - now_ms div 1000 < 60)"

text \<open>The body of the \<^verbatim>\<open>try\<close>.\<close>

definition getToken_try :: "environment \<Rightarrow> (jsstring option) outcome" where
  "getToken_try env =
    (case getSession env of
       Inl reason \<Rightarrow> ([], Inl (Rejected reason))
     | Inr r \<Rightarrow>
       (if auth_error r \<noteq> None then ([Console Error_getting_session], Inr None)
        else case session r of
          None \<Rightarrow> ([Console No_active_session_found], Inr None)
        | Some currentSession \<Rightarrow>
          (if expiring_soon (expires_at currentSession) (Date_now env)
           then (case refreshSession env of
                   Inl reason \<Rightarrow>
                     ([Console Token_expiring_soon, RefreshSession], Inl (Rejected reason))
                 | Inr refreshData \<Rightarrow>
                   (case (auth_error refreshData, session refreshData) of
                      (None, Some refreshed) \<Rightarrow>
                        ([Console Token_expiring_soon, RefreshSession,
                          Console Token_refreshed_successfully],
                         Inr (Some (access_token refreshed)))
                    | _ \<Rightarrow>
                        ([Console Token_expiring_soon, RefreshSession,
                          Console Failed_to_refresh_session],
                         Inr None)))
           else ([], Inr (Some (access_token currentSession))))))"

definition getToken :: "environment \<Rightarrow> (jsstring option) outcome" where
  "getToken env =
    (case getToken_try env of
       (es, Inl e) \<Rightarrow> (es @ [Console Error_getting_token], Inr None)
     | (es, Inr token) \<Rightarrow> (es, Inr token))"

section \<open>Auxiliary definitions for the statements\<close>

text \<open>
  Two code units are exchanged when they are equal or one is the Thunder symbol and the
  other the Mountain symbol; two structure strings differ only by such exchanges when
  they are related position by position.
\<close>

definition exchanged :: "code_unit \<Rightarrow> code_unit \<Rightarrow> bool" where
  "exchanged a b \<longleftrightarrow> a = b \<or> (a = THUNDER \<and> b = MOUNTAIN) \<or> (a = MOUNTAIN \<and> b = THUNDER)"

definition thunder_mountain_exchange :: "jsstring \<Rightarrow> jsstring \<Rightarrow> bool" where
  "thunder_mountain_exchange s t \<longleftrightarrow> list_all2 exchanged s t"

text \<open>The headers of every request a call handed to \<^verbatim>\<open>fetch\<close>, in order.\<close>

fun sent_headers :: "effect list \<Rightarrow> (jsstring \<rightharpoonup> jsstring) list" where
  "sent_headers [] = []"
| "sent_headers (Fetch url (Some config) # es) = spread (headers config) # sent_headers es"
| "sent_headers (Fetch url None # es) = Map.empty # sent_headers es"
| "sent_headers (e # es) = sent_headers es"

text \<open>Concrete surroundings for the examples: a server that answers every request alike.\<close>

definition example_response :: "nat \<Rightarrow> jsstring \<Rightarrow> js_error + JSON \<Rightarrow> Response" where
  "example_response code text parsed = \<lparr>status = code, statusText = text, json = parsed\<rparr>"

definition example_env :: "jsstring + AuthResponse \<Rightarrow> Response \<Rightarrow> environment" where
  "example_env lookup response =
    \<lparr>API_BASE_URL = ascii ''http://localhost:8000'',
     API_SECRET_KEY = ascii ''key'',
     coerce = (\<lambda>v. ascii ''?''),
     fetch = (\<lambda>url init. Inr response),
     getSession = lookup,
     refreshSession = Inl (ascii ''offline''),
     Date_now = 1700000000000\<rparr>"

definition bad_gateway :: Response where
  "bad_gateway = example_response 502 (ascii ''Bad Gateway'') (Inl SyntaxError)"

definition signed_in :: "jsstring \<Rightarrow> int option \<Rightarrow> jsstring + AuthResponse" where
  "signed_in t e =
    Inr \<lparr>session = Some \<lparr>access_token = t, expires_at = e\<rparr>, auth_error = None\<rparr>"

definition maintenance :: Response where
  "maintenance =
    example_response 503 (ascii ''Service Unavailable'')
      (Inr (JObj [(ascii ''status'', JStr (ascii ''unhealthy''))]))"

text \<open>
  A session that expires 30 seconds after the clock of the example, and one whose
  declared expiry is 0.
\<close>

definition expiring_env :: environment where
  "expiring_env =
    (example_env (signed_in (ascii ''old'') (Some 1700000030)) maintenance)
      \<lparr>refreshSession := signed_in (ascii ''new'') (Some 1700003600)\<rparr>"

definition epoch_env :: environment where
  "epoch_env =
    (example_env (signed_in (ascii ''old'') (Some 0)) maintenance)
      \<lparr>refreshSession := signed_in (ascii ''new'') (Some 1700003600)\<rparr>"

section \<open>Properties of the hexagram decoder\<close>

lemmas symbol_defs =
  HEAVEN_def LAKE_def FIRE_def THUNDER_def WIND_def WATER_def MOUNTAIN_def EARTH_def

lemma TRIGRAM_LINES_entry:
  assumes "map_of TRIGRAM_LINES k = Some ls"
  shows "k \<noteq> [] \<and> length ls = 3"
  using map_of_SomeD [OF assms] by (auto simp: TRIGRAM_LINES_def)

lemma trigram_lines_key:
  assumes "map_of TRIGRAM_LINES k = Some ls"
  shows "trigram_lines (Str k) = Inr ls"
  using assms TRIGRAM_LINES_entry [OF assms] by (simp add: trigram_lines_def)

lemma trigram_lines_Null: "trigram_lines Null = Inr [True, True, True]"
  by (simp add: trigram_lines_def)

text \<open>
  Claim C1. For resolved trigram references \<open>u\<close> and \<open>l\<close> (keys of the line table, with
  tuples \<open>ul\<close> and \<open>ll\<close>) the rendered sequence has exactly 6 entries, the first 3 the
  reverse of the upper tuple and the last 3 the reverse of the lower tuple. An unresolved
  slot (\<open>Null\<close>) is replaced by three solid lines, so two unresolved slots give six
  solid lines.
\<close>

theorem line_sequence:
  assumes "map_of TRIGRAM_LINES u = Some ul" and "map_of TRIGRAM_LINES l = Some ll"
  shows "length ul = 3 \<and> length ll = 3 \<and>
    allLines (Str u) (Str l) = Inr (rev ul @ rev ll) \<and>
    length (rev ul @ rev ll) = 6 \<and>
    take 3 (rev ul @ rev ll) = rev ul \<and> drop 3 (rev ul @ rev ll) = rev ll \<and>
    allLines Null (Str l) = Inr ([True, True, True] @ rev ll) \<and>
    allLines (Str u) Null = Inr (rev ul @ [True, True, True]) \<and>
    allLines Null Null = Inr [True, True, True, True, True, True]"
proof -
  have u: "trigram_lines (Str u) = Inr ul" and lu: "length ul = 3"
    using trigram_lines_key [OF assms(1)] TRIGRAM_LINES_entry [OF assms(1)] by simp_all
  have l: "trigram_lines (Str l) = Inr ll" and ll: "length ll = 3"
    using trigram_lines_key [OF assms(2)] TRIGRAM_LINES_entry [OF assms(2)] by simp_all
  show ?thesis
    using lu ll by (simp add: allLines_def u l trigram_lines_Null)
qed

theorem line_sequence_witness:
  "map_of TRIGRAM_LINES [WIND] = Some [True, True, False] \<and>
   map_of TRIGRAM_LINES [WATER] = Some [False, True, False] \<and>
   allLines (Str [WIND]) (Str [WATER]) = Inr [False, True, True, False, True, False]"
proof -
  have a: "map_of TRIGRAM_LINES [WIND] = Some [True, True, False]"
    by (simp add: TRIGRAM_LINES_def symbol_defs)
  have b: "map_of TRIGRAM_LINES [WATER] = Some [False, True, False]"
    by (simp add: TRIGRAM_LINES_def symbol_defs)
  from line_sequence [OF a b] show ?thesis
    using a b by simp
qed

lemma filter_symbols_split:
  assumes "is_trigram_symbol a" "is_trigram_symbol b"
    "\<forall>c\<in>set pre. \<not> is_trigram_symbol c" "\<forall>c\<in>set mid. \<not> is_trigram_symbol c"
  shows "filter is_trigram_symbol (pre @ [a] @ mid @ [b] @ post) =
         a # b # filter is_trigram_symbol post"
  using assms by (simp add: filter_empty_conv [THEN iffD2])

text \<open>
  Claim C2. A string with two or more trigram symbols has the form
  \<open>pre @ [a] @ mid @ [b] @ post\<close>, where \<open>a\<close> and \<open>b\<close> are its first two symbols in
  order of appearance (\<open>pre\<close> and \<open>mid\<close> hold none). Parsing gives \<open>a\<close> as upper
  and \<open>b\<close> as lower whatever \<open>post\<close> holds: later symbols are ignored and raise no
  error.
\<close>

theorem first_two_symbols:
  assumes "is_trigram_symbol a" and "is_trigram_symbol b"
    and "\<forall>c\<in>set pre. \<not> is_trigram_symbol c" and "\<forall>c\<in>set mid. \<not> is_trigram_symbol c"
  shows "parseTrigramSymbols (pre @ [a] @ mid @ [b] @ post) =
         \<lparr>upper = Str [a], lower = Str [b]\<rparr>"
proof -
  have "match_symbols (pre @ [a] @ mid @ [b] @ post) =
        Some ([a] # [b] # map (\<lambda>c. [c]) (filter is_trigram_symbol post))"
    unfolding match_symbols_def filter_symbols_split [OF assms] by simp
  then show ?thesis
    unfolding parseTrigramSymbols_def by simp
qed

theorem first_two_symbols_witness:
  "is_trigram_symbol EARTH \<and> is_trigram_symbol WATER \<and>
   filter is_trigram_symbol (ascii ''K: '') = [] \<and>
   filter is_trigram_symbol (ascii '' / '') = [] \<and>
   parseTrigramSymbols (ascii ''K: '' @ [EARTH] @ ascii '' / '' @ [WATER] @ ascii '' - '' @ [FIRE]) =
     \<lparr>upper = Str [EARTH], lower = Str [WATER]\<rparr>"
proof -
  have a: "is_trigram_symbol EARTH" and b: "is_trigram_symbol WATER"
    by (simp_all add: is_trigram_symbol_def)
  have p: "\<forall>c\<in>set (ascii ''K: ''). \<not> is_trigram_symbol c"
    by (simp add: ascii_def is_trigram_symbol_def symbol_defs)
  have m: "\<forall>c\<in>set (ascii '' / ''). \<not> is_trigram_symbol c"
    by (simp add: ascii_def is_trigram_symbol_def symbol_defs)
  from first_two_symbols [OF a b p m, of "ascii '' - '' @ [FIRE]"] show ?thesis
    using a b p m by (simp add: filter_empty_conv)
qed

text \<open>
  The fallback path. With fewer than two symbols each slot is resolved on its own from
  its marker phrase; a slot is \<open>Null\<close> when its marker phrase is absent, and when its
  name is neither in the synonym table nor a property that the table inherits. A marker
  phrase naming Fire for the upper slot alone gives the Fire trigram and \<open>Null\<close>.
\<close>

lemma fallback_slots:
  assumes "length (filter is_trigram_symbol structure) < 2"
  shows "parseTrigramSymbols structure =
    \<lparr>upper = resolve_name (map_option toLowerCase (regex_match UPPER_MARKER structure)),
     lower = resolve_name (map_option toLowerCase (regex_match LOWER_MARKER structure))\<rparr>"
proof -
  from assms have "filter is_trigram_symbol structure = [] \<or>
      (\<exists>a. filter is_trigram_symbol structure = [a])"
    by (cases "filter is_trigram_symbol structure";
        cases "tl (filter is_trigram_symbol structure)") auto
  then show ?thesis
    by (auto simp: parseTrigramSymbols_def match_symbols_def)
qed

lemma marker_absent_Null: "resolve_name (map_option toLowerCase None) = Null"
  by (simp add: resolve_name_def)

lemma unknown_name_Null:
  assumes "map_of TRIGRAM_NAMES n = None" and "n \<notin> set OBJECT_PROTOTYPE_KEYS"
  shows "resolve_name (Some n) = Null"
  using assms by (simp add: resolve_name_def names_lookup_def)

lemma fallback_upper_fire:
  "parseTrigramSymbols (UPPER_MARKER @ ascii '' fire'') = \<lparr>upper = Str [FIRE], lower = Null\<rparr>"
  by code_simp

text \<open>
  The name word is a run of ASCII word characters, so a name of the table that holds an
  accented letter is cut at that letter and not found: for the upper marker followed by
  the Vietnamese name of Water the captured word is \<^verbatim>\<open>kh\<close> and the slot is \<open>Null\<close>.
\<close>

lemma accented_name_cut:
  "regex_match UPPER_MARKER (UPPER_MARKER @ ascii '' kh'' @ [0x1EA3] @ ascii ''m'') =
     Some (ascii ''kh'') \<and>
   parseTrigramSymbols (UPPER_MARKER @ ascii '' kh'' @ [0x1EA3] @ ascii ''m'') =
     \<lparr>upper = Null, lower = Null\<rparr>"
  by code_simp

text \<open>Every string that parsing puts into a slot is a key of the line table.\<close>

lemma symbol_is_key:
  assumes "is_trigram_symbol c"
  shows "\<exists>ls. map_of TRIGRAM_LINES [c] = Some ls"
  using assms by (auto simp: is_trigram_symbol_def TRIGRAM_LINES_def symbol_defs)

lemma names_lookup_key:
  assumes "names_lookup n = Str k"
  shows "\<exists>ls. map_of TRIGRAM_LINES k = Some ls"
proof -
  from assms have "map_of TRIGRAM_NAMES n = Some k"
    by (auto simp: names_lookup_def split: option.splits if_splits)
  then have "(n, k) \<in> set TRIGRAM_NAMES"
    by (rule map_of_SomeD)
  then have "k \<in> snd ` set TRIGRAM_NAMES"
    by force
  then have "\<exists>c. k = [c] \<and> is_trigram_symbol c"
    by (auto simp: TRIGRAM_NAMES_def is_trigram_symbol_def)
  then show ?thesis
    using symbol_is_key by blast
qed

lemma resolve_name_key:
  assumes "resolve_name n = Str k"
  shows "\<exists>ls. map_of TRIGRAM_LINES k = Some ls"
  using assms names_lookup_key
  by (auto simp: resolve_name_def split: option.splits if_splits)

lemma parsed_strings_are_keys:
  assumes "upper (parseTrigramSymbols structure) = Str k \<or>
           lower (parseTrigramSymbols structure) = Str k"
  shows "\<exists>ls. map_of TRIGRAM_LINES k = Some ls"
proof (cases "\<exists>a b r. filter is_trigram_symbol structure = a # b # r")
  case True
  then obtain a b r where f: "filter is_trigram_symbol structure = a # b # r"
    by blast
  then have "a \<in> set (filter is_trigram_symbol structure)"
    and "b \<in> set (filter is_trigram_symbol structure)"
    by simp_all
  then have "is_trigram_symbol a" "is_trigram_symbol b"
    by simp_all
  moreover have "parseTrigramSymbols structure = \<lparr>upper = Str [a], lower = Str [b]\<rparr>"
    by (simp add: parseTrigramSymbols_def match_symbols_def f)
  ultimately show ?thesis
    using assms symbol_is_key by auto
next
  case False
  then have "length (filter is_trigram_symbol structure) < 2"
    by (cases "filter is_trigram_symbol structure";
        cases "tl (filter is_trigram_symbol structure)") auto
  then show ?thesis
    using assms resolve_name_key by (auto simp: fallback_slots)
qed

text \<open>
  Claim C3, where the code departs from it. The name word \<^verbatim>\<open>constructor\<close> is not in
  the synonym table, yet the upper slot is not \<open>Null\<close>: the lookup finds the property
  that every object literal inherits, and the slot holds that function. The line
  lookup that follows in \<^verbatim>\<open>HexagramVisual\<close> then throws.
\<close>

theorem name_lookup_inherited:
  "match_symbols (UPPER_MARKER @ ascii '' constructor'') = None \<and>
   map_of TRIGRAM_NAMES (ascii ''constructor'') = None \<and>
   parseTrigramSymbols (UPPER_MARKER @ ascii '' constructor'') =
     \<lparr>upper = Inherited (ascii ''constructor''), lower = Null\<rparr> \<and>
   HexagramVisual (UPPER_MARKER @ ascii '' constructor'') = Inl TypeError"
  by code_simp

lemma symbols_are_symbols: "is_trigram_symbol THUNDER" "is_trigram_symbol MOUNTAIN"
  by (simp_all add: is_trigram_symbol_def)

lemma exchanged_symbol: "exchanged a b \<Longrightarrow> is_trigram_symbol a = is_trigram_symbol b"
  using symbols_are_symbols by (auto simp: exchanged_def)

lemma symbols_not_space: "\<not> is_space THUNDER" "\<not> is_space MOUNTAIN"
  by (simp_all add: is_space_def symbol_defs)

lemma symbols_not_word: "\<not> is_word THUNDER" "\<not> is_word MOUNTAIN"
  by (simp_all add: is_word_def symbol_defs)

lemma exchanged_space: "exchanged a b \<Longrightarrow> is_space a = is_space b \<and> (is_space a \<longrightarrow> a = b)"
  using symbols_not_space by (auto simp: exchanged_def)

lemma exchanged_word: "exchanged a b \<Longrightarrow> is_word a = is_word b \<and> (is_word a \<longrightarrow> a = b)"
  using symbols_not_word by (auto simp: exchanged_def)

lemma exchanged_ci_char:
  assumes "exchanged a b" and "upper_form p \<noteq> THUNDER" and "upper_form p \<noteq> MOUNTAIN"
  shows "ci_char p a = ci_char p b"
proof -
  have "upper_form THUNDER = THUNDER" and "upper_form MOUNTAIN = MOUNTAIN"
    by (simp_all add: upper_form_def symbol_defs)
  then show ?thesis
    using assms by (auto simp: exchanged_def ci_char_def)
qed

lemma thunder_mountain_lines:
  "map_of TRIGRAM_LINES [THUNDER] = Some [False, False, True]"
  "map_of TRIGRAM_LINES [MOUNTAIN] = Some [False, False, True]"
  by (simp_all add: TRIGRAM_LINES_def symbol_defs)

lemma exchanged_lines:
  "exchanged a b \<Longrightarrow> map_of TRIGRAM_LINES [a] = map_of TRIGRAM_LINES [b]"
  using thunder_mountain_lines by (auto simp: exchanged_def)

lemma exchange_takeWhile:
  assumes "list_all2 exchanged xs ys"
    and "\<And>a b. exchanged a b \<Longrightarrow> P a = P b \<and> (P a \<longrightarrow> a = b)"
  shows "takeWhile P xs = takeWhile P ys"
  using assms(1)
proof (induction rule: list_all2_induct)
  case Nil
  show ?case by simp
next
  case (Cons x xs y ys)
  from assms(2) [OF Cons.hyps(1)] have xy: "P x = P y" "P x \<longrightarrow> x = y"
    by blast+
  show ?case
  proof (cases "P x")
    case True
    with xy have "P y" "x = y" by simp_all
    with True Cons.IH show ?thesis by simp
  next
    case False
    with xy have "\<not> P y" by simp
    with False Cons.hyps show ?thesis by simp
  qed
qed

lemma exchange_dropWhile:
  assumes "list_all2 exchanged xs ys"
    and "\<And>a b. exchanged a b \<Longrightarrow> P a = P b \<and> (P a \<longrightarrow> a = b)"
  shows "list_all2 exchanged (dropWhile P xs) (dropWhile P ys)"
  using assms(1)
proof (induction rule: list_all2_induct)
  case Nil
  show ?case by simp
next
  case (Cons x xs y ys)
  from assms(2) [OF Cons.hyps(1)] have xy: "P x = P y" "P x \<longrightarrow> x = y"
    by blast+
  show ?case
  proof (cases "P x")
    case True
    with xy have "P y" "x = y" by simp_all
    with True Cons.IH show ?thesis by simp
  next
    case False
    with xy have "\<not> P y" by simp
    with False Cons.hyps show ?thesis by simp
  qed
qed

lemma exchange_filter:
  assumes "list_all2 exchanged xs ys"
  shows "list_all2 exchanged (filter is_trigram_symbol xs) (filter is_trigram_symbol ys)"
  using assms
proof (induction rule: list_all2_induct)
  case Nil
  show ?case by simp
next
  case (Cons x xs y ys)
  then show ?case using exchanged_symbol [of x y] by auto
qed

lemma exchange_marker:
  assumes "list_all2 exchanged xs ys"
    and "\<forall>p\<in>set m. upper_form p \<noteq> THUNDER \<and> upper_form p \<noteq> MOUNTAIN"
  shows "list_all2 ci_char m xs = list_all2 ci_char m ys"
proof -
  have len: "length xs = length ys"
    using assms(1) by (rule list_all2_lengthD)
  have "ci_char (m ! i) (xs ! i) = ci_char (m ! i) (ys ! i)"
    if "i < length m" and "length m = length xs" for i
  proof -
    have "exchanged (xs ! i) (ys ! i)"
      using assms(1) that by (simp add: list_all2_nthD)
    moreover have "upper_form (m ! i) \<noteq> THUNDER" "upper_form (m ! i) \<noteq> MOUNTAIN"
      using assms(2) that(1) by simp_all
    ultimately show ?thesis by (rule exchanged_ci_char)
  qed
  then show ?thesis
    using len by (auto simp: list_all2_conv_all_nth)
qed

lemma exchange_match_here:
  assumes "list_all2 exchanged s t"
    and "\<forall>p\<in>set m. upper_form p \<noteq> THUNDER \<and> upper_form p \<noteq> MOUNTAIN"
  shows "match_here m s = match_here m t"
proof -
  have len: "length s = length t"
    using assms(1) by (rule list_all2_lengthD)
  have pre: "list_all2 ci_char m (take (length m) s) = list_all2 ci_char m (take (length m) t)"
    using assms by (intro exchange_marker list_all2_takeI)
  have rest: "list_all2 exchanged (drop (length m) s) (drop (length m) t)"
    using assms(1) by (rule list_all2_dropI)
  have sp: "takeWhile is_space (drop (length m) s) = takeWhile is_space (drop (length m) t)"
    using rest exchanged_space by (rule exchange_takeWhile)
  have "list_all2 exchanged (dropWhile is_space (drop (length m) s))
          (dropWhile is_space (drop (length m) t))"
    using rest exchanged_space by (rule exchange_dropWhile)
  then have nm: "takeWhile is_word (dropWhile is_space (drop (length m) s)) =
      takeWhile is_word (dropWhile is_space (drop (length m) t))"
    using exchanged_word by (rule exchange_takeWhile)
  show ?thesis
    by (simp add: match_here_def Let_def len pre sp nm)
qed

lemma exchange_regex_match:
  assumes "list_all2 exchanged s t"
    and "\<forall>p\<in>set m. upper_form p \<noteq> THUNDER \<and> upper_form p \<noteq> MOUNTAIN"
  shows "regex_match m s = regex_match m t"
  using assms(1)
proof (induction rule: list_all2_induct)
  case Nil
  show ?case by simp
next
  case (Cons x xs y ys)
  have "list_all2 exchanged (x # xs) (y # ys)"
    using Cons.hyps by simp
  then have "match_here m (x # xs) = match_here m (y # ys)"
    using assms(2) by (rule exchange_match_here)
  then show ?case
    using Cons.IH by (simp split: option.split)
qed

lemma markers_plain:
  "\<forall>p\<in>set UPPER_MARKER. upper_form p \<noteq> THUNDER \<and> upper_form p \<noteq> MOUNTAIN"
  "\<forall>p\<in>set LOWER_MARKER. upper_form p \<noteq> THUNDER \<and> upper_form p \<noteq> MOUNTAIN"
  by (simp_all add: UPPER_MARKER_def LOWER_MARKER_def ascii_def upper_form_def symbol_defs)

lemma exchanged_trigram_lines:
  "exchanged a b \<Longrightarrow> trigram_lines (Str [a]) = trigram_lines (Str [b])"
  by (simp add: trigram_lines_def exchanged_lines)

lemma exchange_HexagramVisual:
  assumes "list_all2 exchanged s t"
  shows "HexagramVisual s = HexagramVisual t"
proof -
  have up: "regex_match UPPER_MARKER s = regex_match UPPER_MARKER t"
    and lo: "regex_match LOWER_MARKER s = regex_match LOWER_MARKER t"
    using assms markers_plain by (simp_all add: exchange_regex_match)
  let ?fs = "filter is_trigram_symbol s" and ?ft = "filter is_trigram_symbol t"
  have f: "list_all2 exchanged ?fs ?ft"
    using assms by (rule exchange_filter)
  show ?thesis
  proof (cases "\<exists>a b r. ?fs = a # b # r")
    case True
    then obtain a b r where fs: "?fs = a # b # r" by blast
    with f obtain a' b' r' where ft: "?ft = a' # b' # r'"
      and ab: "exchanged a a'" "exchanged b b'"
      by (auto simp: list_all2_Cons1)
    have "HexagramVisual s = allLines (Str [a]) (Str [b])"
      by (simp add: HexagramVisual_def parseTrigramSymbols_def match_symbols_def fs)
    moreover have "HexagramVisual t = allLines (Str [a']) (Str [b'])"
      by (simp add: HexagramVisual_def parseTrigramSymbols_def match_symbols_def ft)
    ultimately show ?thesis
      using exchanged_trigram_lines [OF ab(1)] exchanged_trigram_lines [OF ab(2)]
      by (simp add: allLines_def split: sum.split)
  next
    case False
    then have s: "?fs = [] \<or> (\<exists>a. ?fs = [a])"
      by (cases ?fs; cases "tl ?fs") auto
    with f have t: "?ft = [] \<or> (\<exists>a. ?ft = [a])"
      by (auto simp: list_all2_Cons1)
    have "parseTrigramSymbols s =
        \<lparr>upper = resolve_name (map_option toLowerCase (regex_match UPPER_MARKER s)),
         lower = resolve_name (map_option toLowerCase (regex_match LOWER_MARKER s))\<rparr>"
      using s by (auto simp: parseTrigramSymbols_def match_symbols_def)
    moreover have "parseTrigramSymbols t =
        \<lparr>upper = resolve_name (map_option toLowerCase (regex_match UPPER_MARKER t)),
         lower = resolve_name (map_option toLowerCase (regex_match LOWER_MARKER t))\<rparr>"
      using t by (auto simp: parseTrigramSymbols_def match_symbols_def)
    ultimately show ?thesis
      by (simp add: HexagramVisual_def up lo)
  qed
qed

text \<open>
  Claim C4. The line table gives the Thunder symbol and the Mountain symbol the same
  triple (broken, broken, solid), and two structure strings that differ only by
  exchanging one of the two symbols for the other render the same line sequence.
\<close>

theorem thunder_mountain_same_lines:
  "map_of TRIGRAM_LINES [THUNDER] = Some [False, False, True] \<and>
   map_of TRIGRAM_LINES [MOUNTAIN] = Some [False, False, True] \<and>
   (\<forall>s t. thunder_mountain_exchange s t \<longrightarrow> HexagramVisual s = HexagramVisual t)"
proof -
  show ?thesis
    using thunder_mountain_lines
    by (simp add: thunder_mountain_exchange_def exchange_HexagramVisual)
qed

theorem thunder_mountain_same_lines_witness:
  "thunder_mountain_exchange ([THUNDER] @ ascii ''/'' @ [WATER]) ([MOUNTAIN] @ ascii ''/'' @ [WATER]) \<and>
   HexagramVisual ([THUNDER] @ ascii ''/'' @ [WATER]) = Inr [True, False, False, False, True, False] \<and>
   HexagramVisual ([MOUNTAIN] @ ascii ''/'' @ [WATER]) = Inr [True, False, False, False, True, False]"
proof -
  have x: "thunder_mountain_exchange ([THUNDER] @ ascii ''/'' @ [WATER]) ([MOUNTAIN] @ ascii ''/'' @ [WATER])"
    by (simp add: thunder_mountain_exchange_def exchanged_def ascii_def)
  have v: "HexagramVisual ([THUNDER] @ ascii ''/'' @ [WATER]) = Inr [True, False, False, False, True, False]"
    by code_simp
  from thunder_mountain_same_lines x
  have "HexagramVisual ([THUNDER] @ ascii ''/'' @ [WATER]) =
        HexagramVisual ([MOUNTAIN] @ ascii ''/'' @ [WATER])"
    by blast
  with x v show ?thesis
    by simp
qed

section \<open>Properties of the API client\<close>

lemma status_code_errorData: "status_code (errorData r) = status r"
  by (simp add: errorData_def errorData_try_def split: sum.split)

lemma statusCode_new: "statusCode (new_ApiException co e) = status_code e"
  by (simp add: new_ApiException_def)

text \<open>
  Claim C6. The three classification predicates are decided by the stored status code
  alone and no two of them hold together. An error built from a response with status
  403 is an API key error only, one from status 429 a rate limit error only, one from
  status 401 an auth error only, whatever the body of the response.
\<close>

theorem classification_by_status:
  "(isApiKeyError e \<longleftrightarrow> statusCode e = 403) \<and>
   (isAuthError e \<longleftrightarrow> statusCode e = 401) \<and>
   (isRateLimitError e \<longleftrightarrow> statusCode e = 429) \<and>
   \<not> (isApiKeyError e \<and> isAuthError e) \<and>
   \<not> (isApiKeyError e \<and> isRateLimitError e) \<and>
   \<not> (isAuthError e \<and> isRateLimitError e) \<and>
   (let x = new_ApiException co (errorData (r\<lparr>status := 403\<rparr>))
    in isApiKeyError x \<and> \<not> isAuthError x \<and> \<not> isRateLimitError x) \<and>
   (let x = new_ApiException co (errorData (r\<lparr>status := 429\<rparr>))
    in \<not> isApiKeyError x \<and> \<not> isAuthError x \<and> isRateLimitError x) \<and>
   (let x = new_ApiException co (errorData (r\<lparr>status := 401\<rparr>))
    in \<not> isApiKeyError x \<and> isAuthError x \<and> \<not> isRateLimitError x)"
  by (simp add: isApiKeyError_def isAuthError_def isRateLimitError_def
      statusCode_new status_code_errorData)

theorem classification_by_status_witness:
  "isApiKeyError (new_ApiException (\<lambda>v. []) (errorData (bad_gateway\<lparr>status := 403\<rparr>))) \<and>
   \<not> isAuthError (new_ApiException (\<lambda>v. []) (errorData (bad_gateway\<lparr>status := 403\<rparr>))) \<and>
   \<not> isRateLimitError (new_ApiException (\<lambda>v. []) (errorData (bad_gateway\<lparr>status := 403\<rparr>)))"
  using classification_by_status
    [where e = "new_ApiException (\<lambda>v. []) (errorData (bad_gateway\<lparr>status := 403\<rparr>))"
       and co = "\<lambda>v. []" and r = bad_gateway]
  unfolding Let_def by blast

lemma errorData_unparsed:
  assumes "json response = Inl e"
  shows "errorData response =
    \<lparr>error = JStr (ascii ''HTTP '' @ digits (status response) @ ascii '': '' @
                    statusText response),
     detail = None, status_code = status response\<rparr>"
  using assms by (simp add: errorData_def errorData_try_def)

lemma new_ApiException_unparsed:
  assumes "json response = Inl e"
  shows "new_ApiException co (errorData response) =
    \<lparr>name = ascii ''ApiException'',
     message = ascii ''HTTP '' @ digits (status response) @ ascii '': '' @ statusText response,
     statusCode = status response,
     exception_detail = None\<rparr>"
  unfolding errorData_unparsed [OF assms] new_ApiException_def
  by (simp add: js_or_def js_String_def ascii_def)

lemma constructor_returns_unparsed:
  assumes "json response = Inl e"
  shows "\<not> constructor_throws (errorData response)"
  unfolding errorData_unparsed [OF assms] constructor_throws_def
  by (simp add: js_or_def ascii_def)

lemma getAccessToken_result:
  "snd (getAccessToken env) =
     Inr (case getSession env of Inl reason \<Rightarrow> None
          | Inr r \<Rightarrow> map_option access_token (session r))"
  by (simp add: getAccessToken_def getAccessToken_try_def split: sum.split)

lemma apiFetch_not_ok:
  assumes "fetch env (API_BASE_URL env @ endpoint) (Some (apiFetch_config env options)) =
           Inr response"
    and "\<not> ok response" and "\<not> constructor_throws (errorData response)"
  shows "snd (apiFetch env endpoint options) =
         Inl (Thrown (new_ApiException (coerce env) (errorData response)))"
  using assms by (simp add: apiFetch_def Let_def)

lemma apiFetchWithAuth_not_ok:
  assumes "snd (getAccessToken env) = Inr token"
    and "fetch env (API_BASE_URL env @ endpoint)
           (Some (apiFetchWithAuth_config env token options)) = Inr response"
    and "\<not> ok response" and "\<not> constructor_throws (errorData response)"
  shows "snd (apiFetchWithAuth env endpoint options) =
         Inl (Thrown (new_ApiException (coerce env) (errorData response)))"
proof -
  obtain es where "getAccessToken env = (es, Inr token)"
    using assms(1) by (cases "getAccessToken env") simp
  then show ?thesis
    using assms(2,3,4) by (simp add: apiFetchWithAuth_def Let_def)
qed

text \<open>
  Claim C7. When the response is not ok and its body does not parse as JSON, both
  \<^verbatim>\<open>apiFetch\<close> and \<^verbatim>\<open>apiFetchWithAuth\<close> throw the structured error whose message is
  \<^verbatim>\<open>HTTP <status>: <statusText>\<close> and whose status code is the status of the response;
  the parse error itself does not escape.
\<close>

theorem malformed_error_body:
  assumes "\<not> ok response" and "json response = Inl e"
    and "snd (getAccessToken env) = Inr token"
    and "fetch env (API_BASE_URL env @ endpoint) (Some (apiFetch_config env options)) =
         Inr response"
    and "fetch env (API_BASE_URL env @ endpoint)
           (Some (apiFetchWithAuth_config env token options)) = Inr response"
  shows "snd (apiFetch env endpoint options) =
      Inl (Thrown \<lparr>name = ascii ''ApiException'',
                   message = ascii ''HTTP '' @ digits (status response) @ ascii '': '' @
                             statusText response,
                   statusCode = status response,
                   exception_detail = None\<rparr>) \<and>
    snd (apiFetchWithAuth env endpoint options) =
      Inl (Thrown \<lparr>name = ascii ''ApiException'',
                   message = ascii ''HTTP '' @ digits (status response) @ ascii '': '' @
                             statusText response,
                   statusCode = status response,
                   exception_detail = None\<rparr>)"
  using apiFetch_not_ok [OF assms(4,1) constructor_returns_unparsed [OF assms(2)]]
    apiFetchWithAuth_not_ok [OF assms(3,5,1) constructor_returns_unparsed [OF assms(2)]]
  by (simp add: new_ApiException_unparsed [OF assms(2)])

theorem malformed_error_body_witness:
  "\<not> ok bad_gateway \<and> json bad_gateway = Inl SyntaxError \<and>
   snd (apiFetch (example_env (Inl []) bad_gateway) (ascii ''/x'') GET) =
     Inl (Thrown \<lparr>name = ascii ''ApiException'',
                  message = ascii ''HTTP 502: Bad Gateway'',
                  statusCode = 502, exception_detail = None\<rparr>) \<and>
   snd (apiFetchWithAuth (example_env (Inl []) bad_gateway) (ascii ''/x'') GET) =
     Inl (Thrown \<lparr>name = ascii ''ApiException'',
                  message = ascii ''HTTP 502: Bad Gateway'',
                  statusCode = 502, exception_detail = None\<rparr>)"
proof -
  let ?env = "example_env (Inl []) bad_gateway"
  have a: "\<not> ok bad_gateway" and b: "json bad_gateway = Inl SyntaxError"
    by (simp_all add: bad_gateway_def example_response_def ok_def)
  have c: "snd (getAccessToken ?env) = Inr None"
    by (simp add: getAccessToken_result example_env_def)
  have d: "fetch ?env url init = Inr bad_gateway" for url init
    by (simp add: example_env_def)
  have s: "status bad_gateway = 502" "statusText bad_gateway = ascii ''Bad Gateway''"
    by (simp_all add: bad_gateway_def example_response_def)
  have g: "digits 502 = ascii ''502''"
    by (simp add: digits.simps ascii_def)
  from malformed_error_body
    [where env = ?env and endpoint = "ascii ''/x''" and options = GET, OF a b c d d]
  show ?thesis
    using a b by (simp add: s g ascii_def)
qed

lemma sent_headers_append: "sent_headers (xs @ ys) = sent_headers xs @ sent_headers ys"
  by (induction xs rule: sent_headers.induct) simp_all

lemma sent_headers_getAccessToken: "sent_headers (fst (getAccessToken env)) = []"
  by (simp add: getAccessToken_def split: sum.split)

lemma sent_headers_log_exception: "sent_headers (log_exception x) = []"
  by (simp add: log_exception_def)

lemma apiFetchWithAuth_sent_headers:
  assumes "snd (getAccessToken env) = Inr token"
  shows "sent_headers (fst (apiFetchWithAuth env endpoint options)) =
    [buildBaseHeaders (API_SECRET_KEY env) ++ auth_header token ++ spread (headers options)]"
proof -
  obtain es where g: "getAccessToken env = (es, Inr token)"
    using assms by (cases "getAccessToken env") simp
  then have "sent_headers es = []"
    using sent_headers_getAccessToken [of env] by simp
  then show ?thesis
    by (simp add: apiFetchWithAuth_def Let_def g apiFetchWithAuth_config_def spread_def
        sent_headers_append sent_headers_log_exception split: sum.split)
qed

lemma header_names_distinct:
  "ascii ''Content-Type'' \<noteq> ascii ''X-API-Key''"
  "ascii ''Content-Type'' \<noteq> ascii ''Authorization''"
  "ascii ''X-API-Key'' \<noteq> ascii ''Authorization''"
  by (simp_all add: ascii_def)

lemma assembled_headers:
  "(buildBaseHeaders key ++ auth_header token ++ spread None) (ascii ''Content-Type'') =
     Some (ascii ''application/json'')"
  "key \<noteq> [] \<Longrightarrow>
   (buildBaseHeaders key ++ auth_header token ++ spread None) (ascii ''X-API-Key'') = Some key"
  "token = None \<or> token = Some [] \<Longrightarrow>
   (buildBaseHeaders key ++ auth_header token ++ spread None) (ascii ''Authorization'') = None"
  "token = Some t \<Longrightarrow> t \<noteq> [] \<Longrightarrow>
   (buildBaseHeaders key ++ auth_header token ++ spread None) (ascii ''Authorization'') =
     Some (ascii ''Bearer '' @ t)"
  using header_names_distinct
  by (auto simp: buildBaseHeaders_def auth_header_def spread_def map_add_def Let_def
      split: option.split)

text \<open>
  Claim C5. A token is a non-empty string: the guard \<^verbatim>\<open>token && \<dots>\<close> of the wrapper,
  like \<^verbatim>\<open>if (!token)\<close> of \<^verbatim>\<open>app/profile/page.tsx\<close>, counts the empty string as no
  token. For both authenticated calls, when the token source returns no token the
  request carries no \<^verbatim>\<open>Authorization\<close> header; it always carries
  \<^verbatim>\<open>Content-Type: application/json\<close>, and \<^verbatim>\<open>X-API-Key\<close> with the client key when
  that key is not empty; when a token is returned it carries
  \<^verbatim>\<open>Authorization: Bearer <token>\<close>.
\<close>

theorem header_assembly:
  assumes "snd (getAccessToken env) = Inr token"
  shows "\<forall>es \<in> {fst (analyzeDream env request), fst (getDreamHistory env limit)}.
    \<exists>hs. sent_headers es = [hs] \<and>
      hs (ascii ''Content-Type'') = Some (ascii ''application/json'') \<and>
      (API_SECRET_KEY env \<noteq> [] \<longrightarrow> hs (ascii ''X-API-Key'') = Some (API_SECRET_KEY env)) \<and>
      (token = None \<or> token = Some [] \<longrightarrow> hs (ascii ''Authorization'') = None) \<and>
      (\<forall>t. token = Some t \<and> t \<noteq> [] \<longrightarrow>
           hs (ascii ''Authorization'') = Some (ascii ''Bearer '' @ t))"
proof -
  let ?hs = "buildBaseHeaders (API_SECRET_KEY env) ++ auth_header token ++ spread None"
  have "sent_headers (fst (analyzeDream env request)) = [?hs]"
    and "sent_headers (fst (getDreamHistory env limit)) = [?hs]"
    by (simp_all add: analyzeDream_def getDreamHistory_def POST_def GET_def
        apiFetchWithAuth_sent_headers [OF assms])
  then show ?thesis
    using assembled_headers [where key = "API_SECRET_KEY env" and token = token] by auto
qed

theorem header_assembly_witness:
  "snd (getAccessToken (example_env (signed_in (ascii ''jwt'') None) maintenance)) =
     Inr (Some (ascii ''jwt'')) \<and>
   map (\<lambda>hs. (hs (ascii ''Content-Type''), hs (ascii ''X-API-Key''), hs (ascii ''Authorization'')))
     (sent_headers (fst (analyzeDream (example_env (signed_in (ascii ''jwt'') None) maintenance) []))) =
   [(Some (ascii ''application/json''), Some (ascii ''key''), Some (ascii ''Bearer jwt''))]"
proof -
  let ?env = "example_env (signed_in (ascii ''jwt'') None) maintenance"
  have t: "snd (getAccessToken ?env) = Inr (Some (ascii ''jwt''))"
    by (simp add: getAccessToken_result example_env_def signed_in_def)
  have k: "API_SECRET_KEY ?env = ascii ''key''"
    by (simp add: example_env_def)
  have n: "ascii ''jwt'' \<noteq> []" "ascii ''key'' \<noteq> []"
    by (simp_all add: ascii_def)
  from header_assembly [OF t, of "[]" None]
  obtain hs where "sent_headers (fst (analyzeDream ?env [])) = [hs]"
    and "hs (ascii ''Content-Type'') = Some (ascii ''application/json'')"
    and "hs (ascii ''X-API-Key'') = Some (ascii ''key'')"
    and "hs (ascii ''Authorization'') = Some (ascii ''Bearer '' @ ascii ''jwt'')"
    using k n by auto
  then show ?thesis
    using t by (simp add: ascii_def)
qed

text \<open>
  The empty string at work: a session whose access token is empty sends no
  \<^verbatim>\<open>Authorization\<close> header.
\<close>

lemma empty_token_no_bearer:
  "snd (getAccessToken (example_env (signed_in [] None) maintenance)) = Inr (Some []) \<and>
   map (\<lambda>hs. hs (ascii ''Authorization''))
     (sent_headers (fst (analyzeDream (example_env (signed_in [] None) maintenance) []))) \<noteq>
   [Some (ascii ''Bearer '' @ [])]"
proof -
  let ?env = "example_env (signed_in [] None) maintenance"
  have t: "snd (getAccessToken ?env) = Inr (Some [])"
    by (simp add: getAccessToken_result example_env_def signed_in_def)
  have e: "sent_headers (fst (analyzeDream ?env [])) =
      [buildBaseHeaders (API_SECRET_KEY ?env) ++ auth_header (Some []) ++ spread None]"
    by (simp add: analyzeDream_def POST_def apiFetchWithAuth_sent_headers [OF t])
  have h: "(buildBaseHeaders (API_SECRET_KEY ?env) ++ auth_header (Some []) ++ spread None)
      (ascii ''Authorization'') = None"
    by (rule assembled_headers(3)) simp
  show ?thesis
    by (simp add: e h t)
qed

text \<open>
  The six calls that go through the two wrappers never return a value when the response
  is not ok: they throw the structured error with the status of the response, or the
  \<^verbatim>\<open>TypeError\<close> of the constructor when the message taken from the body has no
  conversion to a string.
\<close>

lemma wrapped_calls_raise:
  assumes "\<forall>url init. fetch env url init = Inr response" and "\<not> ok response"
  shows "\<forall>r \<in> {interpretDream env request, analyzeDream env request,
               getDreamHistory env limit, searchSymbols env request,
               getCommonSymbols env, analyzeTriangle env request}.
    snd r =
      (if constructor_throws (errorData response) then Inl (Native TypeError)
       else Inl (Thrown (new_ApiException (coerce env) (errorData response))))"
proof -
  obtain es token where t: "getAccessToken env = (es, Inr token)"
    using getAccessToken_result [of env] by (cases "getAccessToken env") simp
  have a: "snd (apiFetch env endpoint options) =
      (if constructor_throws (errorData response) then Inl (Native TypeError)
       else Inl (Thrown (new_ApiException (coerce env) (errorData response))))"
    for endpoint options
    using assms by (simp add: apiFetch_def Let_def)
  have b: "snd (apiFetchWithAuth env endpoint options) =
      (if constructor_throws (errorData response) then Inl (Native TypeError)
       else Inl (Thrown (new_ApiException (coerce env) (errorData response))))"
    for endpoint options
    using assms by (simp add: apiFetchWithAuth_def Let_def t)
  show ?thesis
    by (simp add: interpretDream_def analyzeDream_def getDreamHistory_def searchSymbols_def
        getCommonSymbols_def analyzeTriangle_def a b)
qed

lemma structured_error_status:
  "statusCode (new_ApiException co (errorData response)) = status response"
  by (simp add: statusCode_new status_code_errorData)

text \<open>
  A 422 response whose body is \<^verbatim>\<open>{"detail": {"toString": 0}}\<close>: the constructor
  throws, and the caller receives a \<^verbatim>\<open>TypeError\<close> in place of the structured error.
\<close>

lemma constructor_TypeError_escapes:
  "snd (apiFetch
     (example_env (Inl [])
        (example_response 422 (ascii ''Unprocessable Entity'')
           (Inr (JObj [(ascii ''detail'', JObj [(ascii ''toString'', JNum 0)])]))))
     (ascii ''/api/dreams/interpret'') (POST [])) = Inl (Native TypeError)"
  by (simp add: apiFetch_def Let_def example_env_def example_response_def ok_def
      constructor_throws_def errorData_def errorData_try_def js_or_def ascii_def)

text \<open>
  Claim C8, where the code departs from it. \<^verbatim>\<open>healthCheck\<close> calls \<^verbatim>\<open>fetch\<close> itself
  and never looks at \<^verbatim>\<open>response.ok\<close>: on a 503 response with a JSON body it returns
  that body to the caller and throws nothing.
\<close>

theorem healthCheck_returns_error_body:
  "\<not> ok maintenance \<and>
   healthCheck (example_env (Inl []) maintenance) =
     ([Fetch (ascii ''http://localhost:8000/api/health'') None],
      Inr (JObj [(ascii ''status'', JStr (ascii ''unhealthy''))]))"
  by (simp add: healthCheck_def example_env_def maintenance_def example_response_def
      ok_def ascii_def)

lemma getAccessToken_rejected:
  assumes "getSession env = Inl reason"
  shows "getAccessToken env = ([Console Error_getting_access_token], Inr None)"
  using assms by (simp add: getAccessToken_def getAccessToken_try_def)

lemma auth_header_None: "m ++ auth_header None = m"
  by (simp add: auth_header_def)

text \<open>
  Claim C10. \<^verbatim>\<open>getAccessToken\<close> never throws: for every outcome of the session
  lookup it returns a token or \<^verbatim>\<open>null\<close>, and \<^verbatim>\<open>apiFetchWithAuth\<close> always makes
  its one HTTP call. When the lookup throws, the token is \<^verbatim>\<open>null\<close>, the wrapper adds
  no \<^verbatim>\<open>Authorization\<close> header, and the request of either authenticated call carries
  none.
\<close>

theorem token_source_never_throws:
  "(\<exists>token. snd (getAccessToken env) = Inr token) \<and>
   (\<exists>hs. sent_headers (fst (apiFetchWithAuth env endpoint options)) = [hs]) \<and>
   (\<forall>reason. getSession env = Inl reason \<longrightarrow>
      getAccessToken env = ([Console Error_getting_access_token], Inr None) \<and>
      sent_headers (fst (apiFetchWithAuth env endpoint options)) =
        [buildBaseHeaders (API_SECRET_KEY env) ++ spread (headers options)] \<and>
      (\<forall>es \<in> {fst (analyzeDream env request), fst (getDreamHistory env limit)}.
         \<exists>hs. sent_headers es = [hs] \<and> hs (ascii ''Authorization'') = None))"
proof (intro conjI allI impI)
  show t: "\<exists>token. snd (getAccessToken env) = Inr token"
    by (simp add: getAccessToken_result)
  then obtain token where "snd (getAccessToken env) = Inr token" ..
  then show "\<exists>hs. sent_headers (fst (apiFetchWithAuth env endpoint options)) = [hs]"
    by (simp add: apiFetchWithAuth_sent_headers)
next
  fix reason
  assume r: "getSession env = Inl reason"
  then show g: "getAccessToken env = ([Console Error_getting_access_token], Inr None)"
    by (rule getAccessToken_rejected)
  then have n: "snd (getAccessToken env) = Inr None"
    by simp
  show "sent_headers (fst (apiFetchWithAuth env endpoint options)) =
      [buildBaseHeaders (API_SECRET_KEY env) ++ spread (headers options)]"
    by (simp add: apiFetchWithAuth_sent_headers [OF n] auth_header_None)
  have "sent_headers (fst (analyzeDream env request)) =
      [buildBaseHeaders (API_SECRET_KEY env) ++ auth_header None ++ spread None]"
    and "sent_headers (fst (getDreamHistory env limit)) =
      [buildBaseHeaders (API_SECRET_KEY env) ++ auth_header None ++ spread None]"
    by (simp_all add: analyzeDream_def getDreamHistory_def POST_def GET_def
        apiFetchWithAuth_sent_headers [OF n])
  moreover have "(buildBaseHeaders (API_SECRET_KEY env) ++ auth_header None ++ spread None)
      (ascii ''Authorization'') = None"
    by (rule assembled_headers(3)) simp
  ultimately show "\<forall>es \<in> {fst (analyzeDream env request), fst (getDreamHistory env limit)}.
      \<exists>hs. sent_headers es = [hs] \<and> hs (ascii ''Authorization'') = None"
    by simp
qed

theorem token_source_never_throws_witness:
  "getSession (example_env (Inl (ascii ''storage unavailable'')) maintenance) =
     Inl (ascii ''storage unavailable'') \<and>
   getAccessToken (example_env (Inl (ascii ''storage unavailable'')) maintenance) =
     ([Console Error_getting_access_token], Inr None) \<and>
   map (\<lambda>hs. hs (ascii ''Authorization''))
     (sent_headers (fst (analyzeDream
        (example_env (Inl (ascii ''storage unavailable'')) maintenance) []))) = [None]"
proof -
  let ?env = "example_env (Inl (ascii ''storage unavailable'')) maintenance"
  have g: "getSession ?env = Inl (ascii ''storage unavailable'')"
    by (simp add: example_env_def)
  from token_source_never_throws [of ?env _ _ "[]" None] g
  have "getAccessToken ?env = ([Console Error_getting_access_token], Inr None)"
    and "\<exists>hs. sent_headers (fst (analyzeDream ?env [])) = [hs] \<and>
           hs (ascii ''Authorization'') = None"
    by blast+
  then show ?thesis
    using g by auto
qed

section \<open>Properties of \<^verbatim>\<open>AuthProvider.getToken\<close>\<close>

lemma getToken_no_session:
  assumes "getSession env = Inr r" and "session r = None"
  shows "snd (getToken env) = Inr None" and "RefreshSession \<notin> set (fst (getToken env))"
  using assms by (simp_all add: getToken_def getToken_try_def)

lemma getToken_rejected:
  assumes "getSession env = Inl reason"
  shows "snd (getToken env) = Inr None" and "RefreshSession \<notin> set (fst (getToken env))"
  using assms by (simp_all add: getToken_def getToken_try_def)

lemma getToken_refreshes:
  assumes "getSession env = Inr r" and "auth_error r = None" and "session r = Some cur"
    and "expiring_soon (expires_at cur) (Date_now env)"
  shows "RefreshSession \<in> set (fst (getToken env))"
    and "snd (getToken env) =
      Inr (case refreshSession env of
             Inl reason \<Rightarrow> None
           | Inr d \<Rightarrow> (case (auth_error d, session d) of
                        (None, Some s) \<Rightarrow> Some (access_token s)
                      | _ \<Rightarrow> None))"
  using assms
  by (simp_all add: getToken_def getToken_try_def split: sum.split option.split)

lemma getToken_current:
  assumes "getSession env = Inr r" and "auth_error r = None" and "session r = Some cur"
    and "\<not> expiring_soon (expires_at cur) (Date_now env)"
  shows "RefreshSession \<notin> set (fst (getToken env))"
    and "snd (getToken env) = Inr (Some (access_token cur))"
  using assms by (simp_all add: getToken_def getToken_try_def)

text \<open>
  Claim C9. A session is active when the lookup resolves with it and with no error. Its
  expiry is declared when the optional field \<^verbatim>\<open>expires_at\<close> is present, which the
  guard \<^verbatim>\<open>expiresAt && \<dots>\<close> tests by truthiness: a number other than 0. With no
  active session \<^verbatim>\<open>getToken\<close> returns \<^verbatim>\<open>null\<close>. For an active session whose
  declared expiry is less than 60 seconds after the current time, it refreshes the
  session and returns the refreshed access token, or \<^verbatim>\<open>null\<close> when the refresh
  fails. For an active session with 60 seconds or more remaining it returns the current
  access token and does not refresh.
\<close>

theorem getToken_refresh_rule:
  assumes "getSession env = Inr r"
  shows "(session r = None \<longrightarrow>
      snd (getToken env) = Inr None \<and> RefreshSession \<notin> set (fst (getToken env))) \<and>
    (\<forall>cur e. auth_error r = None \<and> session r = Some cur \<and> expires_at cur = Some e \<and>
        e \<noteq> 0 \<and> e - Date_now env div 1000 < 60 \<longrightarrow>
      RefreshSession \<in> set (fst (getToken env)) \<and>
      snd (getToken env) =
        Inr (case refreshSession env of
               Inl reason \<Rightarrow> None
             | Inr d \<Rightarrow> (case (auth_error d, session d) of
                          (None, Some s) \<Rightarrow> Some (access_token s)
                        | _ \<Rightarrow> None))) \<and>
    (\<forall>cur e. auth_error r = None \<and> session r = Some cur \<and> expires_at cur = Some e \<and>
        60 \<le> e - Date_now env div 1000 \<longrightarrow>
      RefreshSession \<notin> set (fst (getToken env)) \<and>
      snd (getToken env) = Inr (Some (access_token cur)))"
proof (intro conjI allI impI)
  assume "session r = None"
  then show "snd (getToken env) = Inr None" "RefreshSession \<notin> set (fst (getToken env))"
    using getToken_no_session [OF assms] by simp_all
next
  fix cur e
  assume h: "auth_error r = None \<and> session r = Some cur \<and> expires_at cur = Some e \<and>
      e \<noteq> 0 \<and> e - Date_now env div 1000 < 60"
  then have x: "expiring_soon (expires_at cur) (Date_now env)"
    by (simp add: expiring_soon_def)
  from h have a: "auth_error r = None" and s: "session r = Some cur" by simp_all
  show "RefreshSession \<in> set (fst (getToken env))"
    using assms a s x by (rule getToken_refreshes(1))
  show "snd (getToken env) =
      Inr (case refreshSession env of
             Inl reason \<Rightarrow> None
           | Inr d \<Rightarrow> (case (auth_error d, session d) of
                        (None, Some s) \<Rightarrow> Some (access_token s)
                      | _ \<Rightarrow> None))"
    using assms a s x by (rule getToken_refreshes(2))
next
  fix cur e
  assume h: "auth_error r = None \<and> session r = Some cur \<and> expires_at cur = Some e \<and>
      60 \<le> e - Date_now env div 1000"
  then have x: "\<not> expiring_soon (expires_at cur) (Date_now env)"
    by (simp add: expiring_soon_def)
  from h have a: "auth_error r = None" and s: "session r = Some cur" by simp_all
  show "RefreshSession \<notin> set (fst (getToken env))"
    using assms a s x by (rule getToken_current(1))
  show "snd (getToken env) = Inr (Some (access_token cur))"
    using assms a s x by (rule getToken_current(2))
qed

theorem getToken_refresh_rule_witness:
  "getSession expiring_env = signed_in (ascii ''old'') (Some 1700000030) \<and>
   (1700000030 :: int) - Date_now expiring_env div 1000 < 60 \<and>
   RefreshSession \<in> set (fst (getToken expiring_env)) \<and>
   snd (getToken expiring_env) = Inr (Some (ascii ''new''))"
proof -
  let ?r = "\<lparr>session = Some \<lparr>access_token = ascii ''old'', expires_at = Some 1700000030\<rparr>,
             auth_error = None\<rparr>"
  have g: "getSession expiring_env = Inr ?r"
    by (simp add: expiring_env_def example_env_def signed_in_def)
  have d: "Date_now expiring_env = 1700000000000"
    by (simp add: expiring_env_def example_env_def)
  have f: "refreshSession expiring_env = signed_in (ascii ''new'') (Some 1700003600)"
    by (simp add: expiring_env_def)
  from getToken_refresh_rule [OF g]
  have "auth_error ?r = None \<and> session ?r = Some \<lparr>access_token = ascii ''old'', expires_at = Some 1700000030\<rparr> \<and>
        expires_at \<lparr>access_token = ascii ''old'', expires_at = Some (1700000030::int)\<rparr> = Some 1700000030 \<and>
        (1700000030::int) \<noteq> 0 \<and> 1700000030 - Date_now expiring_env div 1000 < 60 \<longrightarrow>
      RefreshSession \<in> set (fst (getToken expiring_env)) \<and>
      snd (getToken expiring_env) =
        Inr (case refreshSession expiring_env of
               Inl reason \<Rightarrow> None
             | Inr d \<Rightarrow> (case (auth_error d, session d) of
                          (None, Some s) \<Rightarrow> Some (access_token s)
                        | _ \<Rightarrow> None))"
    by blast
  then show ?thesis
    by (simp add: g d f signed_in_def)
qed

text \<open>
  The presence test at work: a session whose \<^verbatim>\<open>expires_at\<close> is 0 is handled like one
  with no expiry, nothing is refreshed and the current token is returned.
\<close>

lemma epoch_expiry_not_refreshed:
  "getSession epoch_env = signed_in (ascii ''old'') (Some 0) \<and>
   (0 :: int) - Date_now epoch_env div 1000 < 60 \<and>
   RefreshSession \<notin> set (fst (getToken epoch_env)) \<and>
   snd (getToken epoch_env) = Inr (Some (ascii ''old''))"
  by (simp add: epoch_env_def example_env_def signed_in_def getToken_def getToken_try_def
      expiring_soon_def)

end
